theory Spec2Isabelle
  imports Complex_Main
begin

section \<open>Python values\<close>

text \<open>
  The validators of \<^verbatim>\<open>Rx.py\<close> inspect decoded data: \<^verbatim>\<open>None\<close>, booleans, integers,
  floats, strings, lists, tuples and dictionaries. The semantics followed is that of
  Python 3 (the file imports \<^verbatim>\<open>six\<close> to run on both major versions).

  A number is represented by its exact mathematical value. Python compares an \<^verbatim>\<open>int\<close>
  with a \<^verbatim>\<open>float\<close> exactly, and the only arithmetic the checks perform is
  \<^verbatim>\<open>value % 1 == 0\<close>, which is true of a finite float exactly when it is integral, so no
  rounding is ever observed. Every finite float is a rational; the model admits every
  rational where Python has only the dyadic ones.

  Strings are byte strings (ASCII). Dictionary keys are strings, as in a decoded JSON
  object; a dictionary is an association list in insertion order, and a well-formed one
  has distinct keys.
\<close>

datatype error = SchemaError | ValueError | KeyError | IndexError | TypeError
  | AttributeError | RecursionError

datatype pynum = Num rat | PosInf | NegInf | NaN

datatype pyval =
    PNone
  | PBool bool
  | PInt int
  | PFloat pynum
  | PStr string
  | PList "pyval list"
  | PTuple "pyval list"
  | PDict "(string \<times> pyval) list"

text \<open>\<^verbatim>\<open>isinstance(value, Number)\<close>: \<^verbatim>\<open>bool\<close> is a subclass of \<^verbatim>\<open>int\<close>, so a boolean is
  a \<^verbatim>\<open>Number\<close>, with value 0 or 1. \<open>num_val\<close> is \<open>None\<close> on every other value.\<close>

fun num_val :: "pyval \<Rightarrow> pynum option" where
  "num_val (PBool b) = Some (Num (if b then 1 else 0))"
| "num_val (PInt i) = Some (Num (of_int i))"
| "num_val (PFloat x) = Some x"
| "num_val _ = None"

definition isinstance_Number :: "pyval \<Rightarrow> bool" where
  "isinstance_Number v = (num_val v \<noteq> None)"

fun isinstance_bool :: "pyval \<Rightarrow> bool" where
  "isinstance_bool (PBool b) = True"
| "isinstance_bool _ = False"

text \<open>Comparison of numbers: every comparison with NaN is false.\<close>

fun num_le :: "pynum \<Rightarrow> pynum \<Rightarrow> bool" where
  "num_le NaN _ = False"
| "num_le _ NaN = False"
| "num_le NegInf _ = True"
| "num_le _ PosInf = True"
| "num_le (Num a) (Num b) = (a \<le> b)"
| "num_le _ _ = False"

fun num_lt :: "pynum \<Rightarrow> pynum \<Rightarrow> bool" where
  "num_lt NaN _ = False"
| "num_lt _ NaN = False"
| "num_lt PosInf _ = False"
| "num_lt _ NegInf = False"
| "num_lt (Num a) (Num b) = (a < b)"
| "num_lt _ _ = True"

fun num_eq :: "pynum \<Rightarrow> pynum \<Rightarrow> bool" where
  "num_eq (Num a) (Num b) = (a = b)"
| "num_eq PosInf PosInf = True"
| "num_eq NegInf NegInf = True"
| "num_eq _ _ = False"

text \<open>\<^verbatim>\<open>x % 1 == 0\<close> on a number: an infinity or a NaN gives NaN, which is not 0.\<close>

fun mod1_is_zero :: "pynum \<Rightarrow> bool" where
  "mod1_is_zero (Num q) = (of_int \<lfloor>q\<rfloor> = q)"
| "mod1_is_zero _ = False"

text \<open>Truth value of an object, as \<^verbatim>\<open>if x\<close> and \<^verbatim>\<open>not x\<close> take it.\<close>

fun truthy :: "pyval \<Rightarrow> bool" where
  "truthy PNone = False"
| "truthy (PBool b) = b"
| "truthy (PInt i) = (i \<noteq> 0)"
| "truthy (PFloat x) = (x \<noteq> Num 0)"
| "truthy (PStr s) = (s \<noteq> [])"
| "truthy (PList xs) = (xs \<noteq> [])"
| "truthy (PTuple xs) = (xs \<noteq> [])"
| "truthy (PDict kvs) = (kvs \<noteq> [])"

text \<open>\<^verbatim>\<open>d.get(k)\<close> followed by a truth test: a missing key gives \<^verbatim>\<open>None\<close>, which is
  false.\<close>

definition get_truthy :: "(string \<times> pyval) list \<Rightarrow> string \<Rightarrow> bool" where
  "get_truthy d k = (case map_of d k of None \<Rightarrow> False | Some v \<Rightarrow> truthy v)"

text \<open>\<^verbatim>\<open>d[k]\<close> raises \<^verbatim>\<open>KeyError\<close> on a missing key.\<close>

definition getitem :: "(string \<times> 'a) list \<Rightarrow> string \<Rightarrow> error + 'a" where
  "getitem d k = (case map_of d k of None \<Rightarrow> Inl KeyError | Some v \<Rightarrow> Inr v)"

text \<open>\<^verbatim>\<open>{...}.issuperset(d)\<close> for a dictionary \<open>d\<close>: every key of \<open>d\<close> is in the set.\<close>

definition issuperset :: "string list \<Rightarrow> (string \<times> 'a) list \<Rightarrow> bool" where
  "issuperset allowed d = list_all (\<lambda>k. k \<in> set allowed) (map fst d)"

text \<open>Iterating over an object (\<^verbatim>\<open>for s in x\<close>): a string yields its characters, a
  dictionary its keys, and a number or \<^verbatim>\<open>None\<close> is not iterable.\<close>

fun py_iter :: "pyval \<Rightarrow> error + pyval list" where
  "py_iter (PList xs) = Inr xs"
| "py_iter (PTuple xs) = Inr xs"
| "py_iter (PStr s) = Inr (map (\<lambda>c. PStr [c]) s)"
| "py_iter (PDict kvs) = Inr (map (\<lambda>kv. PStr (fst kv)) kvs)"
| "py_iter _ = Inl TypeError"

fun hashable :: "pyval \<Rightarrow> bool" where
  "hashable (PList xs) = False"
| "hashable (PDict kvs) = False"
| "hashable (PTuple xs) = list_all hashable xs"
| "hashable _ = True"

text \<open>A list comprehension \<^verbatim>\<open>[f(x) for x in xs]\<close> whose body may raise.\<close>

fun mapM :: "('a \<Rightarrow> error + 'b) \<Rightarrow> 'a list \<Rightarrow> error + 'b list" where
  "mapM f [] = Inr []"
| "mapM f (x # xs) =
     (case f x of
        Inl e \<Rightarrow> Inl e
      | Inr y \<Rightarrow> (case mapM f xs of Inl e \<Rightarrow> Inl e | Inr ys \<Rightarrow> Inr (y # ys)))"

section \<open>\<^verbatim>\<open>Util.make_range_check\<close>\<close>

text \<open>
  \<^verbatim>\<open>check_range\<close> is a closure over \<^verbatim>\<open>r\<close>, the copy of the bounds specification; the model
  passes \<open>r\<close> explicitly. Its argument is always a number: the callers pass a length, or
  a value that has passed \<^verbatim>\<open>isinstance(value, Number)\<close>. A bound is whatever object the
  schema document holds; ordering a number against an object that is not a number
  raises \<^verbatim>\<open>TypeError\<close>.
\<close>

definition py_le :: "pyval \<Rightarrow> pynum \<Rightarrow> error + bool" where
  "py_le bound x = (case num_val bound of None \<Rightarrow> Inl TypeError | Some b \<Rightarrow> Inr (num_le b x))"

definition py_ge :: "pyval \<Rightarrow> pynum \<Rightarrow> error + bool" where
  "py_ge bound x = (case num_val bound of None \<Rightarrow> Inl TypeError | Some b \<Rightarrow> Inr (num_le x b))"

definition py_lt :: "pyval \<Rightarrow> pynum \<Rightarrow> error + bool" where
  "py_lt bound x = (case num_val bound of None \<Rightarrow> Inl TypeError | Some b \<Rightarrow> Inr (num_lt b x))"

definition py_gt :: "pyval \<Rightarrow> pynum \<Rightarrow> error + bool" where
  "py_gt bound x = (case num_val bound of None \<Rightarrow> Inl TypeError | Some b \<Rightarrow> Inr (num_lt x b))"

text \<open>\<^verbatim>\<open>r.get(k, default)\<close>: a list has no method \<^verbatim>\<open>get\<close>.\<close>

fun r_get :: "pyval \<Rightarrow> string \<Rightarrow> pyval \<Rightarrow> error + pyval" where
  "r_get (PDict kvs) k d = Inr (case map_of kvs k of None \<Rightarrow> d | Some v \<Rightarrow> v)"
| "r_get _ k d = Inl AttributeError"

text \<open>\<^verbatim>\<open>a and b\<close> on results that may raise: \<open>b\<close> is evaluated only when \<open>a\<close> is true.\<close>

definition and_then :: "error + bool \<Rightarrow> error + bool \<Rightarrow> error + bool" where
  "and_then a b = (case a of Inl e \<Rightarrow> Inl e | Inr t \<Rightarrow> if t then b else Inr False)"

definition cmp_bound ::
  "pyval \<Rightarrow> string \<Rightarrow> pynum \<Rightarrow> (pyval \<Rightarrow> pynum \<Rightarrow> error + bool) \<Rightarrow> pynum \<Rightarrow> error + bool" where
  "cmp_bound r k d cmp x = (case r_get r k (PFloat d) of Inl e \<Rightarrow> Inl e | Inr b \<Rightarrow> cmp b x)"

definition check_range :: "pyval \<Rightarrow> pynum \<Rightarrow> error + bool" where
  "check_range r x =
     and_then (cmp_bound r ''min'' NegInf py_le x)
    (and_then (cmp_bound r ''max'' PosInf py_ge x)
    (and_then (cmp_bound r ''min-ex'' NegInf py_lt x)
              (cmp_bound r ''max-ex'' PosInf py_gt x)))"

definition range_keys :: "string list" where
  "range_keys = [''min'', ''max'', ''min-ex'', ''max-ex'']"

text \<open>\<^verbatim>\<open>{'min', 'max', 'min-ex', 'max-ex'}.issuperset(xs)\<close> for a sequence \<open>xs\<close>: the
  elements are looked up one after the other; an unhashable one raises.\<close>

fun issuperset_seq :: "string list \<Rightarrow> pyval list \<Rightarrow> error + bool" where
  "issuperset_seq allowed [] = Inr True"
| "issuperset_seq allowed (x # xs) =
     (if \<not> hashable x then Inl TypeError
      else if x \<in> PStr ` set allowed then issuperset_seq allowed xs
      else Inr False)"

text \<open>The checks of \<^verbatim>\<open>make_range_check\<close> on the names the specification holds.\<close>

definition range_names_ok :: "string list \<Rightarrow> error + unit" where
  "range_names_ok ks =
     (if \<not> list_all (\<lambda>k. k \<in> set range_keys) ks then Inl ValueError
      else if ''min'' \<in> set ks \<and> ''min-ex'' \<in> set ks then Inl ValueError
      else if ''max'' \<in> set ks \<and> ''max-ex'' \<in> set ks then Inl ValueError
      else Inr ())"

fun str_names :: "pyval list \<Rightarrow> string list" where
  "str_names [] = []"
| "str_names (PStr s # xs) = s # str_names xs"
| "str_names (_ # xs) = str_names xs"

text \<open>
  The result is the captured \<open>r\<close>. A dictionary is the intended argument. The other
  shapes follow what the three set tests and \<^verbatim>\<open>opt.copy()\<close> do with them: a number or
  \<^verbatim>\<open>None\<close> is not iterable; a non-empty string iterates over single characters, none of
  which is a bound name; the empty string and a tuple pass the set tests and have no
  method \<^verbatim>\<open>copy\<close>; a list of bound names is copied (and \<^verbatim>\<open>check_range\<close> then fails on
  \<^verbatim>\<open>r.get\<close>).
\<close>

fun make_range_check :: "pyval \<Rightarrow> error + pyval" where
  "make_range_check (PDict kvs) =
     (case range_names_ok (map fst kvs) of Inl e \<Rightarrow> Inl e | Inr _ \<Rightarrow> Inr (PDict kvs))"
| "make_range_check (PList xs) =
     (case issuperset_seq range_keys xs of
        Inl e \<Rightarrow> Inl e
      | Inr ok \<Rightarrow>
          if \<not> ok then Inl ValueError
          else (case range_names_ok (str_names xs) of
                  Inl e \<Rightarrow> Inl e
                | Inr _ \<Rightarrow> Inr (PList xs)))"
| "make_range_check (PTuple xs) =
     (case issuperset_seq range_keys xs of
        Inl e \<Rightarrow> Inl e
      | Inr ok \<Rightarrow>
          if \<not> ok then Inl ValueError
          else (case range_names_ok (str_names xs) of
                  Inl e \<Rightarrow> Inl e
                | Inr _ \<Rightarrow> Inl AttributeError))"
| "make_range_check (PStr s) = (if s = [] then Inl AttributeError else Inl ValueError)"
| "make_range_check _ = Inl TypeError"

section \<open>Compiled validators and \<^verbatim>\<open>check\<close>\<close>

text \<open>
  One constructor for each of the fourteen classes, holding the attributes that the
  class's \<^verbatim>\<open>__init__\<close> sets: \<^verbatim>\<open>alts\<close>; \<^verbatim>\<open>content_schema\<close> and \<^verbatim>\<open>length\<close>; \<^verbatim>\<open>value\<close> and
  \<^verbatim>\<open>range\<close>; \<^verbatim>\<open>value_schema\<close>; \<^verbatim>\<open>known\<close>, \<^verbatim>\<open>rest_schema\<close>, \<^verbatim>\<open>required\<close> and \<^verbatim>\<open>optional\<close>;
  \<^verbatim>\<open>content_schema\<close> and \<^verbatim>\<open>tail_schema\<close>; \<^verbatim>\<open>value\<close> and \<^verbatim>\<open>length\<close>. An attribute that is
  \<^verbatim>\<open>None\<close> is \<open>None\<close>; a range check is the \<open>r\<close> its closure captured.
\<close>

datatype validator =
    AllType "validator list"
  | AnyType "validator list option"
  | ArrType validator "pyval option"
  | BoolType
  | DefType
  | FailType
  | IntType "pyval option" "pyval option"
  | MapType validator
  | NilType
  | NumType "pyval option" "pyval option"
  | OneType
  | RecType "string set" "validator option" "(string \<times> validator) list"
      "(string \<times> validator) list"
  | SeqType "validator list" "validator option"
  | StrType "string option" "pyval option"

text \<open>\<^verbatim>\<open>isinstance(value, (list, tuple))\<close>, with the items.\<close>

fun seq_items :: "pyval \<Rightarrow> pyval list option" where
  "seq_items (PList xs) = Some xs"
| "seq_items (PTuple xs) = Some xs"
| "seq_items _ = None"

fun dict_items :: "pyval \<Rightarrow> (string \<times> pyval) list option" where
  "dict_items (PDict d) = Some d"
| "dict_items _ = None"

fun str_of :: "pyval \<Rightarrow> string option" where
  "str_of (PStr s) = Some s"
| "str_of _ = None"

text \<open>\<^verbatim>\<open>value[n:]\<close>: the slice of a list is a list, that of a tuple a tuple.\<close>

fun slice_from :: "nat \<Rightarrow> pyval \<Rightarrow> pyval" where
  "slice_from n (PList xs) = PList (drop n xs)"
| "slice_from n (PTuple xs) = PTuple (drop n xs)"
| "slice_from n v = v"

text \<open>\<^verbatim>\<open>self.range is None or self.range(value)\<close>.\<close>

fun opt_range :: "pyval option \<Rightarrow> pynum \<Rightarrow> error + bool" where
  "opt_range None x = Inr True"
| "opt_range (Some r) x = check_range r x"

text \<open>\<^verbatim>\<open>self.value is None or value == self.value\<close> for a number \<open>x\<close>; the fixed value
  is a \<^verbatim>\<open>Number\<close> in every validator that \<^verbatim>\<open>__init__\<close> has built.\<close>

fun opt_value :: "pyval option \<Rightarrow> pynum \<Rightarrow> bool" where
  "opt_value None x = True"
| "opt_value (Some w) x = (case num_val w of None \<Rightarrow> False | Some y \<Rightarrow> num_eq x y)"

text \<open>\<^verbatim>\<open>[k for k in value.keys() if k not in self.known]\<close>.\<close>

definition unknown_keys :: "string set \<Rightarrow> (string \<times> pyval) list \<Rightarrow> string list" where
  "unknown_keys known d = filter (\<lambda>k. k \<notin> known) (map fst d)"

text \<open>\<^verbatim>\<open>{key: value[key] for key in unknown}\<close>.\<close>

definition rest_of :: "(string \<times> pyval) list \<Rightarrow> string list \<Rightarrow> error + (string \<times> pyval) list" where
  "rest_of d unknown =
     mapM (\<lambda>key. case getitem d key of Inl e \<Rightarrow> Inl e | Inr v \<Rightarrow> Inr (key, v)) unknown"

text \<open>
  \<open>all_m f xs\<close> is \<^verbatim>\<open>all(f(x) for x in xs)\<close>, and also a \<^verbatim>\<open>for\<close> loop that returns
  \<^verbatim>\<open>False\<close> at the first \<open>x\<close> whose test fails; \<open>any_m f xs\<close> is \<^verbatim>\<open>any(f(x) for x in xs)\<close>.
  Both stop at the first decisive element, and an exception raised by \<open>f\<close> propagates.
\<close>

fun all_m :: "('a \<Rightarrow> error + bool) \<Rightarrow> 'a list \<Rightarrow> error + bool" where
  "all_m f [] = Inr True"
| "all_m f (x # xs) = and_then (f x) (all_m f xs)"

fun any_m :: "('a \<Rightarrow> error + bool) \<Rightarrow> 'a list \<Rightarrow> error + bool" where
  "any_m f [] = Inr False"
| "any_m f (x # xs) =
     (case f x of Inl e \<Rightarrow> Inl e | Inr t \<Rightarrow> if t then Inr True else any_m f xs)"

lemma all_m_cong [fundef_cong]:
  "xs = ys \<Longrightarrow> (\<And>x. x \<in> set ys \<Longrightarrow> f x = g x) \<Longrightarrow> all_m f xs = all_m g ys"
  by (induction ys arbitrary: xs) auto

lemma any_m_cong [fundef_cong]:
  "xs = ys \<Longrightarrow> (\<And>x. x \<in> set ys \<Longrightarrow> f x = g x) \<Longrightarrow> any_m f xs = any_m g ys"
proof (induction ys arbitrary: xs)
  case Nil
  then show ?case by simp
next
  case (Cons a ys)
  have "any_m f ys = any_m g ys" using Cons.IH [OF refl] Cons.prems(2) by simp
  moreover have "f a = g a" using Cons.prems(2) by simp
  ultimately show ?case using Cons.prems(1) by (simp split: sum.splits)
qed

lemma size_mem_le: "x \<in> set xs \<Longrightarrow> size x \<le> size_list size xs"
  using size_list_estimation' [of x xs "size x" size] by simp

lemma size_nth_le: "i < length ss \<Longrightarrow> size (ss ! i) \<le> size_list size ss"
  by (rule size_mem_le) simp

lemma size_snd_le:
  "fs \<in> set rs \<Longrightarrow> size (snd fs) \<le> size_list (size_prod (\<lambda>x. 0) size) rs"
proof -
  assume mem: "fs \<in> set rs"
  have "size (snd fs) \<le> size_prod (\<lambda>x. 0) size fs" by (cases fs) simp
  with mem show ?thesis by (rule size_list_estimation')
qed

function check :: "validator \<Rightarrow> pyval \<Rightarrow> error + bool" where
  "check (AllType alts) value = all_m (\<lambda>schema. check schema value) alts"
| "check (AnyType None) value = Inr True"
| "check (AnyType (Some alts)) value = any_m (\<lambda>schema. check schema value) alts"
| "check (ArrType content_schema len) value =
     (case seq_items value of
        None \<Rightarrow> Inr False
      | Some xs \<Rightarrow>
          and_then (opt_range len (Num (of_nat (length xs))))
                   (all_m (\<lambda>item. check content_schema item) xs))"
| "check BoolType value = Inr (isinstance_bool value)"
| "check DefType value = Inr (value \<noteq> PNone)"
| "check FailType value = Inr False"
| "check (IntType fixed rng) value =
     (case num_val value of
        None \<Rightarrow> Inr False
      | Some x \<Rightarrow>
          if isinstance_bool value then Inr False
          else if \<not> mod1_is_zero x then Inr False
          else and_then (opt_range rng x) (Inr (opt_value fixed x)))"
| "check (MapType value_schema) value =
     (case dict_items value of
        None \<Rightarrow> Inr False
      | Some d \<Rightarrow> all_m (\<lambda>v. check value_schema v) (map snd d))"
| "check NilType value = Inr (value = PNone)"
| "check (NumType fixed rng) value =
     (case num_val value of
        None \<Rightarrow> Inr False
      | Some x \<Rightarrow>
          if isinstance_bool value then Inr False
          else and_then (opt_range rng x) (Inr (opt_value fixed x)))"
| "check OneType value = Inr (isinstance_Number value \<or> str_of value \<noteq> None)"
| "check (RecType known rest_schema required optional) value =
     (case dict_items value of
        None \<Rightarrow> Inr False
      | Some d \<Rightarrow>
          if unknown_keys known d \<noteq> [] \<and> rest_schema = None then Inr False
          else
            and_then
              (all_m (\<lambda>fs. case map_of d (fst fs) of
                              None \<Rightarrow> Inr False
                            | Some v \<Rightarrow> check (snd fs) v) required)
           (and_then
              (all_m (\<lambda>fs. case map_of d (fst fs) of
                              None \<Rightarrow> Inr True
                            | Some v \<Rightarrow> check (snd fs) v) optional)
              (if unknown_keys known d \<noteq> [] then
                 (case rest_of d (unknown_keys known d) of
                    Inl e \<Rightarrow> Inl e
                  | Inr rest \<Rightarrow>
                      (case rest_schema of
                         None \<Rightarrow> Inl AttributeError
                       | Some s \<Rightarrow> check s (PDict rest)))
               else Inr True)))"
| "check (SeqType content_schema tail_schema) value =
     (case seq_items value of
        None \<Rightarrow> Inr False
      | Some xs \<Rightarrow>
          if length xs < length content_schema then Inr False
          else
            and_then
              (all_m (\<lambda>i. check (content_schema ! i) (xs ! i)) [0..<length content_schema])
              (if length xs > length content_schema then
                 (case tail_schema of
                    None \<Rightarrow> Inr False
                  | Some t \<Rightarrow> check t (slice_from (length content_schema) value))
               else Inr True))"
| "check (StrType fixed len) value =
     (case str_of value of
        None \<Rightarrow> Inr False
      | Some s \<Rightarrow>
          and_then (Inr (case fixed of None \<Rightarrow> True | Some w \<Rightarrow> s = w))
                   (opt_range len (Num (of_nat (length s)))))"
  by pat_completeness auto


termination
  apply (relation "measure (\<lambda>p. size (fst p))")
  apply simp_all
  subgoal by (drule size_mem_le) simp
  subgoal by (drule size_mem_le) simp
  subgoal by (drule size_snd_le) simp
  subgoal by (drule size_snd_le) simp
  subgoal by (drule size_nth_le) simp
  done

section \<open>The schema factory\<close>

text \<open>
  The fourteen classes of \<^verbatim>\<open>core_types\<close>. A registry entry is either one of these
  classes or the dictionary \<^verbatim>\<open>{'schema': schema}\<close> that \<^verbatim>\<open>learn_type\<close> stores.
\<close>

datatype core_type = AllT | AnyT | ArrT | BoolT | DefT | FailT | IntT | MapT | NilT | NumT
  | OneT | RecT | SeqT | StrT

datatype type_entry = CoreType core_type | Learned pyval

record factory =
  prefix_registry :: "string \<rightharpoonup> string"
  type_registry :: "string \<rightharpoonup> type_entry"

fun subname :: "core_type \<Rightarrow> string" where
  "subname AllT = ''all''"
| "subname AnyT = ''any''"
| "subname ArrT = ''arr''"
| "subname BoolT = ''bool''"
| "subname DefT = ''def''"
| "subname FailT = ''fail''"
| "subname IntT = ''int''"
| "subname MapT = ''map''"
| "subname NilT = ''nil''"
| "subname NumT = ''num''"
| "subname OneT = ''one''"
| "subname RecT = ''rec''"
| "subname SeqT = ''seq''"
| "subname StrT = ''str''"

definition uri :: "core_type \<Rightarrow> string" where
  "uri t = ''tag:codesimply.com,2008:rx/core/'' @ subname t"

definition core_types :: "core_type list" where
  "core_types = [AllT, AnyT, ArrT, BoolT, DefT, FailT, IntT, MapT, NilT, NumT, OneT, RecT,
     SeqT, StrT]"

subsection \<open>\<^verbatim>\<open>expand_uri\<close>\<close>

text \<open>
  The two regular expressions, on ASCII strings. \<^verbatim>\<open>\w\<close> is a letter, a digit or an
  underscore. In \<^verbatim>\<open>^/([-._a-z0-9]*)/([-._a-z0-9]+)$\<close> neither group can hold a slash, so
  each group is the longest run of its characters; \<^verbatim>\<open>$\<close> matches at the end of the
  string and also just before a final newline.
\<close>

definition word_char :: "char \<Rightarrow> bool" where
  "word_char c =
     (c \<in> set ''abcdefghijklmnopqrstuvwxyzABCDEFGHIJKLMNOPQRSTUVWXYZ0123456789_'')"

definition name_char :: "char \<Rightarrow> bool" where
  "name_char c = (c \<in> set ''-._abcdefghijklmnopqrstuvwxyz0123456789'')"

definition match_absolute :: "string \<Rightarrow> bool" where
  "match_absolute s =
     (takeWhile word_char s \<noteq> [] \<and>
      (case dropWhile word_char s of [] \<Rightarrow> False | c # _ \<Rightarrow> c = CHR '':''))"

definition match_shorthand :: "string \<Rightarrow> (string \<times> string) option" where
  "match_shorthand s =
     (case s of
        [] \<Rightarrow> None
      | c # t \<Rightarrow>
          if c \<noteq> CHR ''/'' then None
          else (case dropWhile name_char t of
                  [] \<Rightarrow> None
                | c' # u \<Rightarrow>
                    if c' \<noteq> CHR ''/'' then None
                    else if takeWhile name_char u \<noteq> [] \<and>
                            (dropWhile name_char u = [] \<or> dropWhile name_char u = [CHR 0x0A])
                    then Some (takeWhile name_char t, takeWhile name_char u)
                    else None))"

text \<open>
  A type name that is not a string makes \<^verbatim>\<open>re.match\<close> raise \<^verbatim>\<open>TypeError\<close>. For an
  unregistered prefix the code builds a \<^verbatim>\<open>KeyError\<close>, but the message mixes \<^verbatim>\<open>{0}\<close> with
  \<^verbatim>\<open>{}\<close>, so \<^verbatim>\<open>str.format\<close> raises \<^verbatim>\<open>ValueError\<close> before the \<^verbatim>\<open>KeyError\<close> exists.
\<close>

fun expand_uri :: "factory \<Rightarrow> pyval \<Rightarrow> error + string" where
  "expand_uri rx (PStr type_name) =
     (if match_absolute type_name then Inr type_name
      else (case match_shorthand type_name of
              None \<Rightarrow> Inl ValueError
            | Some ps \<Rightarrow>
                (case prefix_registry rx (fst ps) of
                   None \<Rightarrow> Inl ValueError
                 | Some base \<Rightarrow> Inr (base @ snd ps))))"
| "expand_uri rx _ = Inl TypeError"

subsection \<open>Registration\<close>

text \<open>
  A method that mutates the factory returns the exception it raised, if any, and the
  factory as it is afterwards.
\<close>

definition add_prefix :: "factory \<Rightarrow> string \<Rightarrow> string \<Rightarrow> error option \<times> factory" where
  "add_prefix rx name base =
     (if (case prefix_registry rx name of None \<Rightarrow> False | Some b \<Rightarrow> truthy (PStr b))
      then (Some SchemaError, rx)
      else (None, rx\<lparr>prefix_registry := (prefix_registry rx)(name \<mapsto> base)\<rparr>))"

definition register_type :: "factory \<Rightarrow> core_type \<Rightarrow> error option \<times> factory" where
  "register_type rx t =
     (if type_registry rx (uri t) \<noteq> None then (Some ValueError, rx)
      else (None, rx\<lparr>type_registry := (type_registry rx)(uri t \<mapsto> CoreType t)\<rparr>))"

text \<open>\<^verbatim>\<open>for t in core_types: self.register_type(t)\<close>.\<close>

fun register_all :: "factory \<Rightarrow> core_type list \<Rightarrow> error option \<times> factory" where
  "register_all rx [] = (None, rx)"
| "register_all rx (t # ts) =
     (case register_type rx t of
        (Some e, rx') \<Rightarrow> (Some e, rx')
      | (None, rx') \<Rightarrow> register_all rx' ts)"

definition default_prefixes :: "string \<rightharpoonup> string" where
  "default_prefixes =
     ['''' \<mapsto> ''tag:codesimply.com,2008:rx/core/'',
      ''.meta'' \<mapsto> ''tag:codesimply.com,2008:rx/meta/'']"

definition Factory :: "bool \<Rightarrow> error option \<times> factory" where
  "Factory register_core_types =
     (if register_core_types
      then register_all
             \<lparr>prefix_registry = default_prefixes, type_registry = Map.empty\<rparr> core_types
      else (None, \<lparr>prefix_registry = default_prefixes, type_registry = Map.empty\<rparr>))"

subsection \<open>The constructors of the core types\<close>

text \<open>
  Each \<^verbatim>\<open>__init__(self, schema, rx)\<close> takes \<open>mk\<close>, the method \<^verbatim>\<open>rx.make_schema\<close>, and the
  schema dictionary, and returns the object it has initialised, or the exception.
\<close>

definition bindE :: "error + 'a \<Rightarrow> ('a \<Rightarrow> error + 'b) \<Rightarrow> error + 'b" where
  "bindE m f = (case m of Inl e \<Rightarrow> Inl e | Inr x \<Rightarrow> f x)"

definition CoreType_init ::
  "validator \<Rightarrow> (pyval \<Rightarrow> error + validator) \<Rightarrow> (string \<times> pyval) list \<Rightarrow> error + validator" where
  "CoreType_init self mk schema =
     (if \<not> issuperset [''type''] schema then Inl SchemaError else Inr self)"

definition AllType_init ::
  "(pyval \<Rightarrow> error + validator) \<Rightarrow> (string \<times> pyval) list \<Rightarrow> error + validator" where
  "AllType_init mk schema =
     (if \<not> issuperset [''type'', ''of''] schema then Inl SchemaError
      else if \<not> get_truthy schema ''of'' then Inl SchemaError
      else bindE (getitem schema ''of'') (\<lambda>x.
           bindE (py_iter x) (\<lambda>ss.
           bindE (mapM mk ss) (\<lambda>alts. Inr (AllType alts)))))"

definition AnyType_init ::
  "(pyval \<Rightarrow> error + validator) \<Rightarrow> (string \<times> pyval) list \<Rightarrow> error + validator" where
  "AnyType_init mk schema =
     (if \<not> issuperset [''type'', ''of''] schema then Inl SchemaError
      else (case map_of schema ''of'' of
              None \<Rightarrow> Inr (AnyType None)
            | Some x \<Rightarrow>
                if \<not> truthy x then Inl SchemaError
                else bindE (py_iter x) (\<lambda>ss.
                     bindE (mapM mk ss) (\<lambda>alts. Inr (AnyType (Some alts))))))"

definition ArrType_init ::
  "(pyval \<Rightarrow> error + validator) \<Rightarrow> (string \<times> pyval) list \<Rightarrow> error + validator" where
  "ArrType_init mk schema =
     (if \<not> issuperset [''type'', ''contents'', ''length''] schema then Inl SchemaError
      else if \<not> get_truthy schema ''contents'' then Inl SchemaError
      else bindE (getitem schema ''contents'') (\<lambda>c.
           bindE (mk c) (\<lambda>content_schema.
           if get_truthy schema ''length''
           then bindE (getitem schema ''length'') (\<lambda>l.
                bindE (make_range_check l) (\<lambda>r. Inr (ArrType content_schema (Some r))))
           else Inr (ArrType content_schema None))))"

definition IntType_init ::
  "(pyval \<Rightarrow> error + validator) \<Rightarrow> (string \<times> pyval) list \<Rightarrow> error + validator" where
  "IntType_init mk schema =
     (if \<not> issuperset [''type'', ''range'', ''value''] schema then Inl SchemaError
      else bindE (case map_of schema ''value'' of
                    None \<Rightarrow> Inr None
                  | Some v \<Rightarrow>
                      (case num_val v of
                         None \<Rightarrow> Inl SchemaError
                       | Some x \<Rightarrow> if \<not> mod1_is_zero x then Inl SchemaError else Inr (Some v)))
             (\<lambda>fixed.
           bindE (case map_of schema ''range'' of
                    None \<Rightarrow> Inr None
                  | Some l \<Rightarrow> bindE (make_range_check l) (\<lambda>r. Inr (Some r)))
             (\<lambda>rng. Inr (IntType fixed rng))))"

definition MapType_init ::
  "(pyval \<Rightarrow> error + validator) \<Rightarrow> (string \<times> pyval) list \<Rightarrow> error + validator" where
  "MapType_init mk schema =
     (if \<not> issuperset [''type'', ''values''] schema then Inl SchemaError
      else if \<not> get_truthy schema ''values'' then Inl SchemaError
      else bindE (getitem schema ''values'') (\<lambda>v.
           bindE (mk v) (\<lambda>value_schema. Inr (MapType value_schema))))"

definition NumType_init ::
  "(pyval \<Rightarrow> error + validator) \<Rightarrow> (string \<times> pyval) list \<Rightarrow> error + validator" where
  "NumType_init mk schema =
     (if \<not> issuperset [''type'', ''range'', ''value''] schema then Inl SchemaError
      else bindE (case map_of schema ''value'' of
                    None \<Rightarrow> Inr None
                  | Some v \<Rightarrow> if \<not> isinstance_Number v then Inl SchemaError else Inr (Some v))
             (\<lambda>fixed.
           bindE (if get_truthy schema ''range''
                  then bindE (getitem schema ''range'') (\<lambda>l.
                       bindE (make_range_check l) (\<lambda>r. Inr (Some r)))
                  else Inr None)
             (\<lambda>rng. Inr (NumType fixed rng))))"

text \<open>\<^verbatim>\<open>schema.get(which, {}).keys()\<close>: only a dictionary has \<^verbatim>\<open>keys\<close>.\<close>

definition which_dict :: "(string \<times> pyval) list \<Rightarrow> string \<Rightarrow> error + (string \<times> pyval) list" where
  "which_dict schema which =
     (case map_of schema which of
        None \<Rightarrow> Inr []
      | Some v \<Rightarrow> (case dict_items v of None \<Rightarrow> Inl AttributeError | Some d \<Rightarrow> Inr d))"

text \<open>The inner loop of \<^verbatim>\<open>RecType.__init__\<close> over the fields of one of the two
  dictionaries: it returns \<^verbatim>\<open>self.known\<close> and the dictionary of compiled fields.\<close>

fun rec_fields ::
  "(pyval \<Rightarrow> error + validator) \<Rightarrow> (string \<times> pyval) list \<Rightarrow> string list \<Rightarrow> string set \<Rightarrow>
   error + string set \<times> (string \<times> validator) list" where
  "rec_fields mk d [] known = Inr (known, [])"
| "rec_fields mk d (field # rest_fields) known =
     (if field \<in> known then Inl SchemaError
      else bindE (getitem d field) (\<lambda>s.
           bindE (mk s) (\<lambda>v.
           bindE (rec_fields mk d rest_fields (insert field known)) (\<lambda>kr.
           Inr (fst kr, (field, v) # snd kr)))))"

definition RecType_init ::
  "(pyval \<Rightarrow> error + validator) \<Rightarrow> (string \<times> pyval) list \<Rightarrow> error + validator" where
  "RecType_init mk schema =
     (if \<not> issuperset [''type'', ''rest'', ''required'', ''optional''] schema
      then Inl SchemaError
      else bindE (if get_truthy schema ''rest''
                  then bindE (getitem schema ''rest'') (\<lambda>r.
                       bindE (mk r) (\<lambda>v. Inr (Some v)))
                  else Inr None)
             (\<lambda>rest_schema.
           bindE (which_dict schema ''required'') (\<lambda>rd.
           bindE (rec_fields mk rd (map fst rd) {}) (\<lambda>kr.
           bindE (which_dict schema ''optional'') (\<lambda>od.
           bindE (rec_fields mk od (map fst od) (fst kr)) (\<lambda>ko.
           Inr (RecType (fst ko) rest_schema (snd kr) (snd ko))))))))"

definition SeqType_init ::
  "(pyval \<Rightarrow> error + validator) \<Rightarrow> (string \<times> pyval) list \<Rightarrow> error + validator" where
  "SeqType_init mk schema =
     (if \<not> issuperset [''type'', ''contents'', ''tail''] schema then Inl SchemaError
      else if \<not> get_truthy schema ''contents'' then Inl SchemaError
      else bindE (getitem schema ''contents'') (\<lambda>x.
           bindE (py_iter x) (\<lambda>ss.
           bindE (mapM mk ss) (\<lambda>content_schema.
           if get_truthy schema ''tail''
           then bindE (getitem schema ''tail'') (\<lambda>t.
                bindE (mk t) (\<lambda>tail_schema. Inr (SeqType content_schema (Some tail_schema))))
           else Inr (SeqType content_schema None)))))"

definition StrType_init ::
  "(pyval \<Rightarrow> error + validator) \<Rightarrow> (string \<times> pyval) list \<Rightarrow> error + validator" where
  "StrType_init mk schema =
     (if \<not> issuperset [''type'', ''value'', ''length''] schema then Inl SchemaError
      else bindE (case map_of schema ''value'' of
                    None \<Rightarrow> Inr None
                  | Some v \<Rightarrow>
                      (case str_of v of None \<Rightarrow> Inl SchemaError | Some s \<Rightarrow> Inr (Some s)))
             (\<lambda>fixed.
           bindE (case map_of schema ''length'' of
                    None \<Rightarrow> Inr None
                  | Some l \<Rightarrow> bindE (make_range_check l) (\<lambda>r. Inr (Some r)))
             (\<lambda>len. Inr (StrType fixed len))))"

text \<open>\<^verbatim>\<open>type_class(schema, self)\<close>: the class's constructor. The five classes without an
  \<^verbatim>\<open>__init__\<close> of their own inherit that of \<^verbatim>\<open>_CoreType\<close>.\<close>

fun new :: "core_type \<Rightarrow> (pyval \<Rightarrow> error + validator) \<Rightarrow> (string \<times> pyval) list \<Rightarrow>
    error + validator" where
  "new AllT = AllType_init"
| "new AnyT = AnyType_init"
| "new ArrT = ArrType_init"
| "new BoolT = CoreType_init BoolType"
| "new DefT = CoreType_init DefType"
| "new FailT = CoreType_init FailType"
| "new IntT = IntType_init"
| "new MapT = MapType_init"
| "new NilT = CoreType_init NilType"
| "new NumT = NumType_init"
| "new OneT = CoreType_init OneType"
| "new RecT = RecType_init"
| "new SeqT = SeqType_init"
| "new StrT = StrType_init"

subsection \<open>\<^verbatim>\<open>make_schema\<close> and \<^verbatim>\<open>learn_type\<close>\<close>

text \<open>
  \<^verbatim>\<open>make_schema\<close> recurses through the nested documents and through the documents of
  learned types, which nothing keeps from referring to each other in a cycle. The first
  argument bounds the depth of nested calls of \<^verbatim>\<open>make_schema\<close>; Python, too, has such a
  bound, and raises \<^verbatim>\<open>RecursionError\<close> when it is reached. \<^verbatim>\<open>make_schema\<close> does not change
  the factory.
\<close>

fun make_schema :: "nat \<Rightarrow> factory \<Rightarrow> pyval \<Rightarrow> error + validator" where
  "make_schema 0 rx schema = Inl RecursionError"
| "make_schema (Suc n) rx schema =
     (case dict_items (case str_of schema of
                         None \<Rightarrow> schema
                       | Some s \<Rightarrow> PDict [(''type'', PStr s)]) of
        None \<Rightarrow> Inl SchemaError
      | Some sd \<Rightarrow>
          bindE (getitem sd ''type'') (\<lambda>t.
          bindE (expand_uri rx t) (\<lambda>u.
          (case type_registry rx u of
             None \<Rightarrow> Inl SchemaError
           | Some (Learned stored) \<Rightarrow>
               if \<not> issuperset [''type''] sd then Inl SchemaError
               else make_schema n rx stored
           | Some (CoreType cls) \<Rightarrow> new cls (make_schema n rx) sd))))"

definition learn_type :: "nat \<Rightarrow> factory \<Rightarrow> string \<Rightarrow> pyval \<Rightarrow> error option \<times> factory" where
  "learn_type n rx u schema =
     (if type_registry rx u \<noteq> None then (Some SchemaError, rx)
      else (case make_schema n rx schema of
              Inl e \<Rightarrow> (Some e, rx)
            | Inr _ \<Rightarrow> (None, rx\<lparr>type_registry := (type_registry rx)(u \<mapsto> Learned schema)\<rparr>)))"


section \<open>What the specification says of a range\<close>

text \<open>
  The range predicate as the specification words it: \<open>x \<ge> min\<close> (default \<open>-\<infinity>\<close>) and
  \<open>x \<le> max\<close> (default \<open>+\<infinity>\<close>) and \<open>x > min-ex\<close> (default \<open>-\<infinity>\<close>) and \<open>x < max-ex\<close>
  (default \<open>+\<infinity>\<close>), over the numbers. \<open>bound_of\<close> is the number a key stands for: the
  default when the key is absent, and no number at all when the value under the key is
  not a number; a comparison with no number does not hold.
\<close>

definition bound_of :: "(string \<times> pyval) list \<Rightarrow> string \<Rightarrow> pynum \<Rightarrow> pynum option" where
  "bound_of spec k d = (case map_of spec k of None \<Rightarrow> Some d | Some v \<Rightarrow> num_val v)"

definition holds :: "pynum option \<Rightarrow> (pynum \<Rightarrow> bool) \<Rightarrow> bool" where
  "holds b p = (case b of None \<Rightarrow> False | Some y \<Rightarrow> p y)"

definition in_range :: "(string \<times> pyval) list \<Rightarrow> pynum \<Rightarrow> bool" where
  "in_range spec x =
     (holds (bound_of spec ''min'' NegInf) (\<lambda>lo. num_le lo x) \<and>
      holds (bound_of spec ''max'' PosInf) (\<lambda>hi. num_le x hi) \<and>
      holds (bound_of spec ''min-ex'' NegInf) (\<lambda>lo. num_lt lo x) \<and>
      holds (bound_of spec ''max-ex'' PosInf) (\<lambda>hi. num_lt x hi))"

section \<open>Evaluating the default factory\<close>

text \<open>\<^verbatim>\<open>Factory()\<close> registers the fourteen core types without raising; its registries are
  looked up here once, for the concrete schemas used below.\<close>

lemma Factory_no_error: "fst (Factory True) = None"
  by (simp add: Factory_def core_types_def register_type_def uri_def)

lemma Factory_prefixes: "prefix_registry (snd (Factory True)) = default_prefixes"
  by (simp add: Factory_def core_types_def register_type_def uri_def)

lemma Factory_types:
  "type_registry (snd (Factory True)) ''tag:codesimply.com,2008:rx/core/all'' = Some (CoreType AllT)"
  "type_registry (snd (Factory True)) ''tag:codesimply.com,2008:rx/core/any'' = Some (CoreType AnyT)"
  "type_registry (snd (Factory True)) ''tag:codesimply.com,2008:rx/core/arr'' = Some (CoreType ArrT)"
  "type_registry (snd (Factory True)) ''tag:codesimply.com,2008:rx/core/int'' = Some (CoreType IntT)"
  "type_registry (snd (Factory True)) ''tag:codesimply.com,2008:rx/core/num'' = Some (CoreType NumT)"
  "type_registry (snd (Factory True)) ''tag:codesimply.com,2008:rx/core/one'' = Some (CoreType OneT)"
  "type_registry (snd (Factory True)) ''tag:codesimply.com,2008:rx/core/rec'' = Some (CoreType RecT)"
  "type_registry (snd (Factory True)) ''tag:codesimply.com,2008:rx/core/seq'' = Some (CoreType SeqT)"
  "type_registry (snd (Factory True)) ''tag:codesimply.com,2008:rx/core/str'' = Some (CoreType StrT)"
  "type_registry (snd (Factory True)) ''tag:codesimply.com,2008:rx/core/nope'' = None"
  by (simp_all add: Factory_def core_types_def register_type_def uri_def)

lemmas eval_defs = bindE_def getitem_def get_truthy_def issuperset_def and_then_def
  match_absolute_def match_shorthand_def word_char_def name_char_def default_prefixes_def
  Factory_prefixes Factory_types

section \<open>Loops and short-circuit conjunctions that return true\<close>

lemma and_then_True: "and_then a b = Inr True \<longleftrightarrow> a = Inr True \<and> b = Inr True"
  by (cases a) (auto simp: and_then_def)

lemma mod1_is_zero_iff: "mod1_is_zero x \<longleftrightarrow> (\<exists>i::int. x = Num (of_int i))"
proof (cases x)
  case (Num q)
  have "(of_int \<lfloor>q\<rfloor> = q) \<longleftrightarrow> (\<exists>i::int. q = of_int i)"
    by (metis floor_of_int)
  with Num show ?thesis by simp
qed simp_all

lemma opt_range_iff:
  "opt_range rng x = Inr True \<longleftrightarrow> (\<forall>r. rng = Some r \<longrightarrow> check_range r x = Inr True)"
  by (cases rng) simp_all

lemma opt_value_iff:
  "opt_value fixed x \<longleftrightarrow> (\<forall>w. fixed = Some w \<longrightarrow> (\<exists>y. num_val w = Some y \<and> num_eq x y))"
  by (cases fixed) (auto split: option.splits)

section \<open>Verified properties\<close>

text \<open>
  C8. The check of an \<^verbatim>\<open>int\<close> validator is true exactly when the value is a number, is
  not a boolean, is a mathematical integer, equals the fixed value when one was given
  and satisfies the range when one was given. In particular 3.5 fails \<^verbatim>\<open>int\<close>, and the
  boolean \<^verbatim>\<open>True\<close> fails both \<^verbatim>\<open>int\<close> and \<^verbatim>\<open>num\<close>, whatever their parameters.
\<close>

theorem int_check_integral:
  "(check (IntType fixed rng) v = Inr True \<longleftrightarrow>
      (\<exists>x. num_val v = Some x \<and> \<not> isinstance_bool v \<and> (\<exists>i::int. x = Num (of_int i)) \<and>
           (\<forall>w. fixed = Some w \<longrightarrow> (\<exists>y. num_val w = Some y \<and> num_eq x y)) \<and>
           (\<forall>r. rng = Some r \<longrightarrow> check_range r x = Inr True))) \<and>
   check (IntType fixed rng) (PFloat (Num (7 / 2))) = Inr False \<and>
   check (IntType fixed rng) (PBool True) = Inr False \<and>
   check (NumType fixed rng) (PBool True) = Inr False"
proof -
  have "check (IntType fixed rng) v = Inr True \<longleftrightarrow>
      (\<exists>x. num_val v = Some x \<and> \<not> isinstance_bool v \<and> mod1_is_zero x \<and>
           opt_value fixed x \<and> opt_range rng x = Inr True)"
    by (cases "num_val v") (auto simp: and_then_True)
  moreover have "\<not> mod1_is_zero (Num (7 / 2))"
  proof -
    have "\<lfloor>7 / 2 :: rat\<rfloor> = 3" by (rule floor_unique) simp_all
    then show ?thesis unfolding mod1_is_zero.simps by simp
  qed
  ultimately show ?thesis
    by (simp add: mod1_is_zero_iff opt_range_iff opt_value_iff)
qed

theorem int_check_integral_witness:
  "make_schema 1 (snd (Factory True)) (PStr ''//int'') = Inr (IntType None None) \<and>
   check (IntType None None) (PInt 3) = Inr True \<and>
   check (IntType None None) (PFloat (Num 3)) = Inr True \<and>
   check (IntType None None) (PFloat (Num (7 / 2))) = Inr False \<and>
   check (IntType None None) (PBool True) = Inr False \<and>
   check (NumType None None) (PBool True) = Inr False \<and>
   check (IntType None None) (PStr ''3'') = Inr False"
  using int_check_integral [of None None "PInt 3"] int_check_integral [of None None "PStr ''3''"]
    int_check_integral [of None None "PFloat (Num 3)"]
  by (simp add: eval_defs IntType_init_def)

text \<open>
  C10. A \<^verbatim>\<open>one\<close> validator accepts both booleans, because \<^verbatim>\<open>bool\<close> is a \<^verbatim>\<open>Number\<close>, while
  the \<^verbatim>\<open>int\<close> and \<^verbatim>\<open>num\<close> validators reject them whatever their parameters. The validator
  compiled from \<^verbatim>\<open>//one\<close> is the \<^verbatim>\<open>one\<close> validator.
\<close>

theorem one_accepts_booleans:
  "check OneType (PBool b) = Inr True \<and>
   check (IntType fixed rng) (PBool b) = Inr False \<and>
   check (NumType fixed rng) (PBool b) = Inr False \<and>
   make_schema (Suc n) (snd (Factory True)) (PStr ''//one'') = Inr OneType"
  by (simp add: isinstance_Number_def eval_defs CoreType_init_def)

theorem one_accepts_booleans_witness:
  "check OneType (PBool True) = Inr True \<and> check OneType (PBool False) = Inr True \<and>
   make_schema 1 (snd (Factory True)) (PStr ''//one'') = Inr OneType \<and>
   make_schema 1 (snd (Factory True)) (PStr ''//int'') = Inr (IntType None None) \<and>
   check (IntType None None) (PBool True) = Inr False"
  using one_accepts_booleans [of True None None 0] one_accepts_booleans [of False None None 0]
  by (simp add: eval_defs IntType_init_def)


text \<open>
  C3, as stated. With the empty prefix registered as in every new factory, the type name
  \<^verbatim>\<open>/str\<close> is not resolved: it has a single slash, the shorthand pattern needs two, and
  \<^verbatim>\<open>expand_uri\<close> raises \<^verbatim>\<open>ValueError\<close>.
\<close>

theorem expand_uri_slash_str_counterexample:
  "prefix_registry (snd (Factory True)) '''' = Some ''tag:codesimply.com,2008:rx/core/'' \<and>
   expand_uri (snd (Factory True)) (PStr ''/str'') = Inl ValueError"
  by (simp add: eval_defs)

text \<open>
  C3, amended. The type name with the empty prefix and the suffix \<^verbatim>\<open>str\<close> is \<^verbatim>\<open>//str\<close>:
  in every factory that has a base registered for the empty prefix it resolves to that
  base followed by \<^verbatim>\<open>str\<close>, which in a new factory is the URI of the core type \<^verbatim>\<open>str\<close>.
\<close>

theorem expand_uri_core_str:
  "prefix_registry rx '''' = Some base \<Longrightarrow>
   expand_uri rx (PStr ''//str'') = Inr (base @ ''str'')"
  by (simp add: match_absolute_def match_shorthand_def word_char_def name_char_def)

theorem expand_uri_core_str_witness:
  "expand_uri (snd (Factory True)) (PStr ''//str'') = Inr ''tag:codesimply.com,2008:rx/core/str'' \<and>
   uri StrT = ''tag:codesimply.com,2008:rx/core/str''"
  using expand_uri_core_str [of "snd (Factory True)" "''tag:codesimply.com,2008:rx/core/''"]
  by (simp add: Factory_prefixes default_prefixes_def uri_def)

text \<open>
  C4. A prefix registered with a non-empty base cannot be registered again: the second
  \<^verbatim>\<open>add_prefix\<close> raises and leaves the factory as it was.
\<close>

lemma add_prefix_duplicate:
  "prefix_registry rx name = Some b \<Longrightarrow> b \<noteq> [] \<Longrightarrow>
   add_prefix rx name base = (Some SchemaError, rx)"
  by (simp add: add_prefix_def)

text \<open>
  C4, at the failing input. \<^verbatim>\<open>add_prefix\<close> tests \<^verbatim>\<open>self.prefix_registry.get(name)\<close> for
  truth, not for presence, so a prefix registered with the empty base counts as absent:
  after \<^verbatim>\<open>add_prefix('x', '')\<close> the call \<^verbatim>\<open>add_prefix('x', 'tag:example.com,2008:x/')\<close>
  returns normally and replaces the base.
\<close>

theorem add_prefix_empty_base_overwritten:
  "fst (add_prefix (snd (Factory True)) ''x'' '''') = None \<and>
   prefix_registry (snd (add_prefix (snd (Factory True)) ''x'' '''')) ''x'' = Some '''' \<and>
   fst (add_prefix (snd (add_prefix (snd (Factory True)) ''x'' '''')) ''x''
          ''tag:example.com,2008:x/'') = None \<and>
   prefix_registry
     (snd (add_prefix (snd (add_prefix (snd (Factory True)) ''x'' '''')) ''x''
             ''tag:example.com,2008:x/'')) ''x'' = Some ''tag:example.com,2008:x/''"
  by (simp add: add_prefix_def Factory_prefixes default_prefixes_def)

text \<open>
  C5. For a URI that is not registered: when the schema document does not compile,
  \<^verbatim>\<open>learn_type\<close> raises the exception of the compilation and the factory is unchanged, so
  the URI stays unregistered; when it compiles, \<^verbatim>\<open>learn_type\<close> returns normally and the
  type registry holds the document itself, uncompiled, under the URI, and is otherwise
  unchanged.
\<close>

theorem learn_type_validates:
  "type_registry rx u = None \<Longrightarrow>
   (\<forall>e. make_schema n rx schema = Inl e \<longrightarrow> learn_type n rx u schema = (Some e, rx)) \<and>
   (\<forall>v. make_schema n rx schema = Inr v \<longrightarrow>
        fst (learn_type n rx u schema) = None \<and>
        type_registry (snd (learn_type n rx u schema)) = (type_registry rx)(u \<mapsto> Learned schema) \<and>
        prefix_registry (snd (learn_type n rx u schema)) = prefix_registry rx)"
  by (simp add: learn_type_def)

lemma demo_unregistered:
  "type_registry (snd (Factory True)) ''tag:example.com,2008:rx/demo'' = None"
  by (simp add: Factory_def core_types_def register_type_def uri_def)

theorem learn_type_validates_witness:
  "type_registry (snd (Factory True)) ''tag:example.com,2008:rx/demo'' = None \<and>
   make_schema 1 (snd (Factory True)) (PStr ''//nope'') = Inl SchemaError \<and>
   learn_type 1 (snd (Factory True)) ''tag:example.com,2008:rx/demo'' (PStr ''//nope'') =
     (Some SchemaError, snd (Factory True)) \<and>
   make_schema 1 (snd (Factory True)) (PStr ''//int'') = Inr (IntType None None) \<and>
   fst (learn_type 1 (snd (Factory True)) ''tag:example.com,2008:rx/demo'' (PStr ''//int'')) = None \<and>
   type_registry
     (snd (learn_type 1 (snd (Factory True)) ''tag:example.com,2008:rx/demo'' (PStr ''//int'')))
     ''tag:example.com,2008:rx/demo'' = Some (Learned (PStr ''//int''))"
proof -
  have a: "make_schema 1 (snd (Factory True)) (PStr ''//nope'') = Inl SchemaError"
    by (simp add: eval_defs)
  have b: "make_schema 1 (snd (Factory True)) (PStr ''//int'') = Inr (IntType None None)"
    by (simp add: eval_defs IntType_init_def)
  show ?thesis
    using learn_type_validates [OF demo_unregistered, of 1 "PStr ''//nope''"]
      learn_type_validates [OF demo_unregistered, of 1 "PStr ''//int''"] a b demo_unregistered
    by simp
qed

text \<open>
  C1, at the failing input. \<^verbatim>\<open>make_range_check\<close> checks the names of the bounds and never
  their values, so the schema \<^verbatim>\<open>{'type': '//int', 'range': {'min': 'a'}}\<close> compiles; the
  check of the value 5 then evaluates \<^verbatim>\<open>'a' <= 5\<close> and raises \<^verbatim>\<open>TypeError\<close>.
\<close>

theorem check_raises_on_bound_that_is_no_number:
  "make_schema 1 (snd (Factory True))
     (PDict [(''type'', PStr ''//int''), (''range'', PDict [(''min'', PStr ''a'')])]) =
     Inr (IntType None (Some (PDict [(''min'', PStr ''a'')]))) \<and>
   check (IntType None (Some (PDict [(''min'', PStr ''a'')]))) (PInt 5) = Inl TypeError"
  by (simp add: eval_defs IntType_init_def range_names_ok_def range_keys_def check_range_def
      cmp_bound_def py_le_def)


lemma all_m_True: "all_m f xs = Inr True \<longleftrightarrow> (\<forall>x\<in>set xs. f x = Inr True)"
  by (induction xs) (auto simp: and_then_True)

lemma range_names_ok_iff:
  "range_names_ok ks = Inr () \<longleftrightarrow>
     set ks \<subseteq> {''min'', ''max'', ''min-ex'', ''max-ex''} \<and>
     \<not> (''min'' \<in> set ks \<and> ''min-ex'' \<in> set ks) \<and>
     \<not> (''max'' \<in> set ks \<and> ''max-ex'' \<in> set ks)"
  by (auto simp: range_names_ok_def range_keys_def list_all_iff)

lemma cmp_bound_True:
  "cmp_bound (PDict spec) k d py_le x = Inr True \<longleftrightarrow> holds (bound_of spec k d) (\<lambda>b. num_le b x)"
  "cmp_bound (PDict spec) k d py_ge x = Inr True \<longleftrightarrow> holds (bound_of spec k d) (\<lambda>b. num_le x b)"
  "cmp_bound (PDict spec) k d py_lt x = Inr True \<longleftrightarrow> holds (bound_of spec k d) (\<lambda>b. num_lt b x)"
  "cmp_bound (PDict spec) k d py_gt x = Inr True \<longleftrightarrow> holds (bound_of spec k d) (\<lambda>b. num_lt x b)"
  by (auto simp: cmp_bound_def holds_def bound_of_def py_le_def py_ge_def py_lt_def py_gt_def
      split: option.splits)

lemma check_range_True: "check_range (PDict spec) x = Inr True \<longleftrightarrow> in_range spec x"
  by (simp add: check_range_def and_then_True cmp_bound_True in_range_def)

lemma and_then_Inr: "and_then (Inr a) (Inr b) = Inr (a \<and> b)"
  by (simp add: and_then_def)

lemma cmp_bound_numeric:
  assumes "\<forall>v. map_of spec k = Some v \<longrightarrow> num_val v \<noteq> None"
  shows "cmp_bound (PDict spec) k d py_le x = Inr (holds (bound_of spec k d) (\<lambda>b. num_le b x))"
    and "cmp_bound (PDict spec) k d py_ge x = Inr (holds (bound_of spec k d) (\<lambda>b. num_le x b))"
    and "cmp_bound (PDict spec) k d py_lt x = Inr (holds (bound_of spec k d) (\<lambda>b. num_lt b x))"
    and "cmp_bound (PDict spec) k d py_gt x = Inr (holds (bound_of spec k d) (\<lambda>b. num_lt x b))"
  using assms
  by (auto simp: cmp_bound_def holds_def bound_of_def py_le_def py_ge_def py_lt_def py_gt_def
      split: option.splits)

lemma check_range_numeric:
  assumes "\<forall>kv\<in>set spec. num_val (snd kv) \<noteq> None"
  shows "check_range (PDict spec) x = Inr (in_range spec x)"
proof -
  have "\<forall>v. map_of spec k = Some v \<longrightarrow> num_val v \<noteq> None" for k
    using assms by (auto dest!: map_of_SomeD)
  then show ?thesis
    by (simp add: check_range_def cmp_bound_numeric and_then_Inr in_range_def)
qed

text \<open>
  C6. For a bounds specification whose keys are among \<^verbatim>\<open>min\<close>, \<^verbatim>\<open>max\<close>, \<^verbatim>\<open>min-ex\<close> and
  \<^verbatim>\<open>max-ex\<close>, without both \<^verbatim>\<open>min\<close> and \<^verbatim>\<open>min-ex\<close> and without both \<^verbatim>\<open>max\<close> and \<^verbatim>\<open>max-ex\<close>,
  \<^verbatim>\<open>make_range_check\<close> returns a predicate that is true of a number \<open>x\<close> exactly when \<open>x\<close>
  is in the range the specification describes; when every bound is a number the
  predicate never raises and returns exactly that truth value.
\<close>

theorem make_range_check_predicate:
  assumes "set (map fst spec) \<subseteq> {''min'', ''max'', ''min-ex'', ''max-ex''}"
    and "\<not> (''min'' \<in> set (map fst spec) \<and> ''min-ex'' \<in> set (map fst spec))"
    and "\<not> (''max'' \<in> set (map fst spec) \<and> ''max-ex'' \<in> set (map fst spec))"
  shows "\<exists>r. make_range_check (PDict spec) = Inr r \<and>
           (\<forall>x. check_range r x = Inr True \<longleftrightarrow> in_range spec x) \<and>
           ((\<forall>kv\<in>set spec. num_val (snd kv) \<noteq> None) \<longrightarrow>
              (\<forall>x. check_range r x = Inr (in_range spec x)))"
proof -
  have "range_names_ok (map fst spec) = Inr ()"
    using assms unfolding range_names_ok_iff by blast
  then have "make_range_check (PDict spec) = Inr (PDict spec)" by simp
  then show ?thesis
    using check_range_True check_range_numeric by blast
qed

theorem make_range_check_predicate_witness:
  "(\<exists>r. make_range_check (PDict [(''min'', PInt 0), (''max'', PInt 10)]) = Inr r \<and>
      (\<forall>q. check_range r (Num q) = Inr (0 \<le> q \<and> q \<le> 10)) \<and>
      check_range r PosInf = Inr False \<and> check_range r NaN = Inr False) \<and>
   (\<exists>r. make_range_check (PDict [(''min-ex'', PInt 0)]) = Inr r \<and>
      check_range r (Num 0) = Inr False \<and>
      check_range r (Num (1 / 10000)) = Inr True \<and>
      (\<forall>q. check_range r (Num q) = Inr (0 < q)))"
proof -
  have a: "in_range [(''min'', PInt 0), (''max'', PInt 10)] (Num q) = (0 \<le> q \<and> q \<le> 10)" for q
    by (simp add: in_range_def holds_def bound_of_def)
  have a': "\<not> in_range [(''min'', PInt 0), (''max'', PInt 10)] PosInf"
    "\<not> in_range [(''min'', PInt 0), (''max'', PInt 10)] NaN"
    by (simp_all add: in_range_def holds_def bound_of_def)
  have b: "in_range [(''min-ex'', PInt 0)] (Num q) = (0 < q)" for q
    by (simp add: in_range_def holds_def bound_of_def)
  show ?thesis
    using make_range_check_predicate [of "[(''min'', PInt 0), (''max'', PInt 10)]"]
      make_range_check_predicate [of "[(''min-ex'', PInt 0)]"] a a' b
    by (simp add: range_names_ok_def range_keys_def)
qed

lemma seq_positions:
  "all_m (\<lambda>i. check (ss ! i) (xs ! i)) [0..<length ss] = Inr True \<longleftrightarrow>
   (\<forall>i<length ss. check (ss ! i) (xs ! i) = Inr True)"
  by (auto simp: all_m_True)

text \<open>
  C7. The check of a \<^verbatim>\<open>seq\<close> validator is true exactly when the value is a list or a
  tuple at least as long as \<^verbatim>\<open>contents\<close>, the item at every position of \<^verbatim>\<open>contents\<close>
  satisfies the schema of that position, and, when the value is longer, a tail schema
  was given and the remaining items, as a sequence of the same kind, satisfy it.
\<close>

theorem seq_check_iff:
  "check (SeqType content_schema tail_schema) v = Inr True \<longleftrightarrow>
     (\<exists>xs. (v = PList xs \<or> v = PTuple xs) \<and>
        length content_schema \<le> length xs \<and>
        (\<forall>i<length content_schema. check (content_schema ! i) (xs ! i) = Inr True) \<and>
        (length content_schema < length xs \<longrightarrow>
           (\<exists>t. tail_schema = Some t \<and>
              check t (if v = PList xs then PList (drop (length content_schema) xs)
                       else PTuple (drop (length content_schema) xs)) = Inr True)))"
proof (cases "seq_items v")
  case None
  then show ?thesis by (cases v) simp_all
next
  case (Some xs)
  then have v: "v = PList xs \<or> v = PTuple xs" by (cases v) simp_all
  have sl: "slice_from (length content_schema) v =
      (if v = PList xs then PList (drop (length content_schema) xs)
       else PTuple (drop (length content_schema) xs))"
    using v by auto
  have "check (SeqType content_schema tail_schema) v = Inr True \<longleftrightarrow>
      length content_schema \<le> length xs \<and>
      (\<forall>i<length content_schema. check (content_schema ! i) (xs ! i) = Inr True) \<and>
      (length content_schema < length xs \<longrightarrow>
         (\<exists>t. tail_schema = Some t \<and>
            check t (slice_from (length content_schema) v) = Inr True))"
    using Some
    by (cases tail_schema) (auto simp: and_then_True seq_positions simp del: all_m.simps)
  then show ?thesis using v sl by auto
qed


theorem seq_check_iff_witness:
  "make_schema (Suc (Suc 0)) (snd (Factory True))
     (PDict [(''type'', PStr ''//seq''), (''contents'', PList [PStr ''//int'', PStr ''//str''])]) =
     Inr (SeqType [IntType None None, StrType None None] None) \<and>
   check (SeqType [IntType None None, StrType None None] None) (PList [PInt 1, PStr ''x'']) =
     Inr True \<and>
   check (SeqType [IntType None None, StrType None None] None)
     (PList [PInt 1, PStr ''x'', PInt 2]) = Inr False \<and>
   make_schema (Suc (Suc (Suc 0))) (snd (Factory True))
     (PDict [(''type'', PStr ''//seq''), (''contents'', PList [PStr ''//int'', PStr ''//str'']),
             (''tail'', PDict [(''type'', PStr ''//arr''),
                               (''contents'', PDict [(''type'', PStr ''//int'')])])]) =
     Inr (SeqType [IntType None None, StrType None None]
            (Some (ArrType (IntType None None) None))) \<and>
   check (SeqType [IntType None None, StrType None None]
            (Some (ArrType (IntType None None) None)))
     (PList [PInt 1, PStr ''x'', PInt 2, PInt 3]) = Inr True"
proof -
  have i: "make_schema (Suc n) (snd (Factory True)) (PStr ''//int'') = Inr (IntType None None)"
    "make_schema (Suc n) (snd (Factory True)) (PDict [(''type'', PStr ''//int'')]) =
       Inr (IntType None None)"
    "make_schema (Suc n) (snd (Factory True)) (PStr ''//str'') = Inr (StrType None None)" for n
    by (simp_all add: eval_defs IntType_init_def StrType_init_def)
  have a: "make_schema (Suc (Suc n)) (snd (Factory True))
      (PDict [(''type'', PStr ''//arr''), (''contents'', PDict [(''type'', PStr ''//int'')])]) =
      Inr (ArrType (IntType None None) None)" for n
    using i [of n]
    by (subst make_schema.simps(2)) (simp add: eval_defs ArrType_init_def del: make_schema.simps)
  have c1: "make_schema (Suc (Suc 0)) (snd (Factory True))
     (PDict [(''type'', PStr ''//seq''), (''contents'', PList [PStr ''//int'', PStr ''//str''])]) =
     Inr (SeqType [IntType None None, StrType None None] None)"
    using i [of 0]
    by (subst make_schema.simps(2)) (simp add: eval_defs SeqType_init_def del: make_schema.simps)
  have c2: "make_schema (Suc (Suc (Suc 0))) (snd (Factory True))
     (PDict [(''type'', PStr ''//seq''), (''contents'', PList [PStr ''//int'', PStr ''//str'']),
             (''tail'', PDict [(''type'', PStr ''//arr''),
                               (''contents'', PDict [(''type'', PStr ''//int'')])])]) =
     Inr (SeqType [IntType None None, StrType None None]
            (Some (ArrType (IntType None None) None)))"
    using i [of "Suc 0"] a [of 0]
    by (subst make_schema.simps(2)) (simp add: eval_defs SeqType_init_def del: make_schema.simps)
  have k: "check (SeqType [IntType None None, StrType None None] None)
     (PList [PInt 1, PStr ''x'', PInt 2]) = Inr False"
    by (simp add: and_then_def)
  show ?thesis
    using seq_check_iff [of "[IntType None None, StrType None None]" None
        "PList [PInt 1, PStr ''x'']"]
      seq_check_iff [of "[IntType None None, StrType None None]"
        "Some (ArrType (IntType None None) None)" "PList [PInt 1, PStr ''x'', PInt 2, PInt 3]"]
      c1 c2 k
    by (simp add: and_then_def less_Suc_eq del: make_schema.simps)
qed

lemma check_all_two:
  "check (AllType [V1, V2]) v = Inr True \<longleftrightarrow> check V1 v = Inr True \<and> check V2 v = Inr True"
  by (simp add: and_then_True)

text \<open>
  C9. Where \<open>t_all\<close> and \<open>t_any\<close> name the core types \<^verbatim>\<open>all\<close> and \<^verbatim>\<open>any\<close>, and the schemas
  \<open>S1\<close> and \<open>S2\<close> compile to \<open>V1\<close> and \<open>V2\<close>: the schema \<^verbatim>\<open>{type: all, of: [S1, S2]}\<close>
  compiles, to a validator that a value satisfies exactly when it satisfies \<open>V1\<close> and
  \<open>V2\<close>; and the schema \<^verbatim>\<open>any\<close> without \<^verbatim>\<open>of\<close> compiles, to a validator that every value
  satisfies.
\<close>

theorem all_any_composition:
  assumes "expand_uri rx (PStr t_all) = Inr u_all"
    and "type_registry rx u_all = Some (CoreType AllT)"
    and "expand_uri rx (PStr t_any) = Inr u_any"
    and "type_registry rx u_any = Some (CoreType AnyT)"
    and "make_schema n rx S1 = Inr V1"
    and "make_schema n rx S2 = Inr V2"
  shows "(\<exists>A. make_schema (Suc n) rx
               (PDict [(''type'', PStr t_all), (''of'', PList [S1, S2])]) = Inr A \<and>
            (\<forall>v. check A v = Inr True \<longleftrightarrow> check V1 v = Inr True \<and> check V2 v = Inr True)) \<and>
         (\<exists>B. make_schema (Suc n) rx (PDict [(''type'', PStr t_any)]) = Inr B \<and>
            make_schema (Suc n) rx (PStr t_any) = Inr B \<and>
            (\<forall>v. check B v = Inr True))"
proof -
  have a: "make_schema (Suc n) rx (PDict [(''type'', PStr t_all), (''of'', PList [S1, S2])]) =
      Inr (AllType [V1, V2])"
    using assms
    by (simp add: bindE_def getitem_def get_truthy_def issuperset_def AllType_init_def
        del: expand_uri.simps)
  have b: "make_schema (Suc n) rx (PDict [(''type'', PStr t_any)]) = Inr (AnyType None)"
    "make_schema (Suc n) rx (PStr t_any) = Inr (AnyType None)"
    using assms
    by (simp_all add: bindE_def getitem_def issuperset_def AnyType_init_def
        del: expand_uri.simps)
  show ?thesis
    unfolding a b using check_all_two by simp
qed

theorem all_any_composition_witness:
  "make_schema (Suc (Suc 0)) (snd (Factory True))
     (PDict [(''type'', PStr ''//all''), (''of'', PList [PStr ''//int'', PStr ''//num''])]) =
     Inr (AllType [IntType None None, NumType None None]) \<and>
   check (AllType [IntType None None, NumType None None]) (PInt 3) = Inr True \<and>
   check (AllType [IntType None None, NumType None None]) (PFloat (Num (7 / 2))) = Inr False \<and>
   make_schema (Suc (Suc 0)) (snd (Factory True)) (PStr ''//any'') = Inr (AnyType None) \<and>
   check (AnyType None) (PStr ''anything'') = Inr True"
proof -
  have e: "expand_uri (snd (Factory True)) (PStr ''//all'') =
        Inr ''tag:codesimply.com,2008:rx/core/all''"
    "expand_uri (snd (Factory True)) (PStr ''//any'') =
        Inr ''tag:codesimply.com,2008:rx/core/any''"
    by (simp_all add: eval_defs)
  have i: "make_schema (Suc 0) (snd (Factory True)) (PStr ''//int'') = Inr (IntType None None)"
    "make_schema (Suc 0) (snd (Factory True)) (PStr ''//num'') = Inr (NumType None None)"
    by (simp_all add: eval_defs IntType_init_def NumType_init_def)
  have f: "check (IntType None None) (PFloat (Num (7 / 2))) = Inr False"
  proof -
    have "\<lfloor>7 / 2 :: rat\<rfloor> = 3" by (rule floor_unique) simp_all
    then show ?thesis by simp
  qed
  obtain A B where A: "make_schema (Suc (Suc 0)) (snd (Factory True))
       (PDict [(''type'', PStr ''//all''), (''of'', PList [PStr ''//int'', PStr ''//num''])]) = Inr A"
      "\<forall>v. check A v = Inr True \<longleftrightarrow>
           check (IntType None None) v = Inr True \<and> check (NumType None None) v = Inr True"
    and B: "make_schema (Suc (Suc 0)) (snd (Factory True)) (PStr ''//any'') = Inr B"
      "\<forall>v. check B v = Inr True"
    using all_any_composition [OF e(1) Factory_types(1) e(2) Factory_types(2) i(1) i(2)]
    by blast
  have "make_schema (Suc (Suc 0)) (snd (Factory True))
       (PDict [(''type'', PStr ''//all''), (''of'', PList [PStr ''//int'', PStr ''//num''])]) =
       Inr (AllType [IntType None None, NumType None None])"
    using i
    by (subst make_schema.simps(2)) (simp add: eval_defs AllType_init_def del: make_schema.simps)
  with A(1) have A': "A = AllType [IntType None None, NumType None None]" by simp
  have "make_schema (Suc (Suc 0)) (snd (Factory True)) (PStr ''//any'') = Inr (AnyType None)"
    by (simp add: eval_defs AnyType_init_def)
  with B(1) have B': "B = AnyType None" by simp
  have "check A (PInt 3) = Inr True"
    using A(2) by (simp add: and_then_def)
  moreover have "check A (PFloat (Num (7 / 2))) = Inr False"
    unfolding A' using f by (simp add: and_then_def del: check.simps(8))
  ultimately show ?thesis
    using A(1) B A' B' by simp
qed


section \<open>What \<^verbatim>\<open>RecType.__init__\<close> establishes\<close>

lemma bindE_Inr: "bindE m f = Inr y \<longleftrightarrow> (\<exists>x. m = Inr x \<and> f x = Inr y)"
  by (cases m) (simp_all add: bindE_def)

lemma rec_fields_known:
  "rec_fields mk d ks known = Inr kr \<Longrightarrow> fst kr = known \<union> set ks \<and> map fst (snd kr) = ks"
proof (induction ks arbitrary: known kr)
  case Nil
  then show ?case by auto
next
  case (Cons k ks)
  from Cons.prems obtain s v kr' where
    "rec_fields mk d ks (insert k known) = Inr kr'" and kr: "kr = (fst kr', (k, v) # snd kr')"
    by (auto simp: bindE_Inr split: if_splits)
  with Cons.IH [of "insert k known" kr'] show ?case by auto
qed

lemma RecType_init_known:
  assumes "RecType_init mk sd = Inr (RecType known rest required optional)"
  shows "known = fst ` set required \<union> fst ` set optional"
proof -
  from assms obtain rd kr od ko where
    r: "rec_fields mk rd (map fst rd) {} = Inr kr"
    and o: "rec_fields mk od (map fst od) (fst kr) = Inr ko"
    and k: "known = fst ko" "required = snd kr" "optional = snd ko"
    by (auto simp: RecType_init_def bindE_Inr split: if_splits)
  from rec_fields_known [OF r] rec_fields_known [OF o]
  have "fst ko = set (map fst (snd kr)) \<union> set (map fst (snd ko))"
    by simp
  with k show ?thesis by simp
qed

lemma new_known:
  assumes "new t mk sd = Inr (RecType known rest required optional)"
  shows "known = fst ` set required \<union> fst ` set optional"
proof (cases t)
  case RecT
  with assms show ?thesis by (simp add: RecType_init_known)
qed (use assms in \<open>auto simp: AllType_init_def AnyType_init_def ArrType_init_def CoreType_init_def
      IntType_init_def MapType_init_def NumType_init_def SeqType_init_def StrType_init_def
      bindE_Inr split: if_splits option.splits\<close>)

lemma make_schema_known:
  "make_schema n rx schema = Inr (RecType known rest required optional) \<Longrightarrow>
   known = fst ` set required \<union> fst ` set optional"
proof (induction n arbitrary: schema)
  case 0
  then show ?case by simp
next
  case (Suc n)
  from Suc.prems obtain sd t u e where
    e: "type_registry rx u = Some e"
    and m: "(case e of
              Learned stored \<Rightarrow>
                if \<not> issuperset [''type''] sd then Inl SchemaError else make_schema n rx stored
            | CoreType cls \<Rightarrow> new cls (make_schema n rx) sd) =
           Inr (RecType known rest required optional)"
    by (auto simp: bindE_Inr split: option.splits)
  show ?case
  proof (cases e)
    case (CoreType cls)
    with m show ?thesis by (simp add: new_known)
  next
    case (Learned stored)
    with m have "make_schema n rx stored = Inr (RecType known rest required optional)"
      by (simp split: if_splits)
    then show ?thesis by (rule Suc.IH)
  qed
qed


lemma rest_of_filter:
  assumes "distinct (map fst d)" and "set d' \<subseteq> set d"
  shows "mapM (\<lambda>key. case getitem d key of Inl e \<Rightarrow> Inl e | Inr v \<Rightarrow> Inr (key, v))
           (filter P (map fst d')) = Inr (filter (\<lambda>kv. P (fst kv)) d')"
  using assms(2)
proof (induction d')
  case Nil
  then show ?case by simp
next
  case (Cons kv d')
  have "(fst kv, snd kv) \<in> set d" using Cons.prems by simp
  with assms(1) have "map_of d (fst kv) = Some (snd kv)" by (rule map_of_is_SomeI)
  then have "getitem d (fst kv) = Inr (snd kv)" by (simp add: getitem_def)
  moreover have "set d' \<subseteq> set d" using Cons.prems by simp
  ultimately show ?case using Cons.IH by simp
qed

lemma rest_of_unknown:
  "distinct (map fst d) \<Longrightarrow>
   rest_of d (unknown_keys known d) = Inr (filter (\<lambda>kv. fst kv \<notin> known) d)"
  unfolding rest_of_def unknown_keys_def by (rule rest_of_filter) simp_all

lemma required_loop:
  "all_m (\<lambda>fs. case map_of d (fst fs) of None \<Rightarrow> Inr False | Some v \<Rightarrow> check (snd fs) v)
     required = Inr True \<longleftrightarrow>
   (\<forall>fs\<in>set required. \<exists>x. map_of d (fst fs) = Some x \<and> check (snd fs) x = Inr True)"
  by (auto simp: all_m_True split: option.splits)

lemma optional_loop:
  "all_m (\<lambda>fs. case map_of d (fst fs) of None \<Rightarrow> Inr True | Some v \<Rightarrow> check (snd fs) v)
     optional = Inr True \<longleftrightarrow>
   (\<forall>fs\<in>set optional. \<forall>x. map_of d (fst fs) = Some x \<longrightarrow> check (snd fs) x = Inr True)"
  by (auto simp: all_m_True split: option.splits)

lemma rec_check_dict:
  assumes "distinct (map fst d)"
  shows "check (RecType known rest_schema required optional) (PDict d) = Inr True \<longleftrightarrow>
     (unknown_keys known d = [] \<or> rest_schema \<noteq> None) \<and>
     (\<forall>fs\<in>set required. \<exists>x. map_of d (fst fs) = Some x \<and> check (snd fs) x = Inr True) \<and>
     (\<forall>fs\<in>set optional. \<forall>x. map_of d (fst fs) = Some x \<longrightarrow> check (snd fs) x = Inr True) \<and>
     (unknown_keys known d \<noteq> [] \<longrightarrow>
        (\<exists>s. rest_schema = Some s \<and>
           check s (PDict (filter (\<lambda>kv. fst kv \<notin> known) d)) = Inr True))"
  using rest_of_unknown [OF assms, of known]
  by (cases rest_schema)
     (auto simp: and_then_True required_loop optional_loop simp del: all_m.simps)

lemma filter_unknown:
  "filter (\<lambda>kv. fst kv \<in> set (unknown_keys known d)) d = filter (\<lambda>kv. fst kv \<notin> known) d"
  by (rule filter_cong) (auto simp: unknown_keys_def)

text \<open>
  C2. For a \<^verbatim>\<open>rec\<close> validator that \<^verbatim>\<open>make_schema\<close> has compiled and a value whose keys, if
  it is a dictionary, are distinct: the check is true exactly when the value is a
  dictionary and, with \<open>unknown\<close> the keys of the value that are neither required nor
  optional fields, \<open>unknown\<close> is empty or a \<^verbatim>\<open>rest\<close> schema was given; every required
  field is present and satisfies its schema; every optional field that is present
  satisfies its schema; and, when \<open>unknown\<close> is not empty, the value restricted to the
  unknown keys satisfies \<^verbatim>\<open>rest\<close>.
\<close>

theorem rec_check_iff:
  assumes "make_schema n rx schema = Inr (RecType known rest_schema required optional)"
    and "\<forall>d. v = PDict d \<longrightarrow> distinct (map fst d)"
  shows "check (RecType known rest_schema required optional) v = Inr True \<longleftrightarrow>
     (\<exists>d unknown. v = PDict d \<and>
        unknown = filter (\<lambda>k. k \<notin> fst ` set required \<union> fst ` set optional) (map fst d) \<and>
        (unknown = [] \<or> rest_schema \<noteq> None) \<and>
        (\<forall>fs\<in>set required. \<exists>x. map_of d (fst fs) = Some x \<and> check (snd fs) x = Inr True) \<and>
        (\<forall>fs\<in>set optional. \<forall>x. map_of d (fst fs) = Some x \<longrightarrow> check (snd fs) x = Inr True) \<and>
        (unknown \<noteq> [] \<longrightarrow>
           (\<exists>s. rest_schema = Some s \<and>
              check s (PDict (filter (\<lambda>kv. fst kv \<in> set unknown) d)) = Inr True)))"
proof (cases "dict_items v")
  case None
  then show ?thesis by (cases v) simp_all
next
  case (Some d)
  then have v: "v = PDict d" by (cases v) simp_all
  with assms(2) have dist: "distinct (map fst d)" by simp
  have known: "known = fst ` set required \<union> fst ` set optional"
    using assms(1) by (rule make_schema_known)
  define unk where
    "unk = filter (\<lambda>k. k \<notin> fst ` set required \<union> fst ` set optional) (map fst d)"
  have u: "unknown_keys known d = unk"
    by (simp add: unknown_keys_def known unk_def)
  have f: "filter (\<lambda>kv. fst kv \<notin> known) d = filter (\<lambda>kv. fst kv \<in> set unk) d"
    using filter_unknown [of known d] u by simp
  have K: "check (RecType known rest_schema required optional) (PDict d) = Inr True \<longleftrightarrow>
     (unk = [] \<or> rest_schema \<noteq> None) \<and>
     (\<forall>fs\<in>set required. \<exists>x. map_of d (fst fs) = Some x \<and> check (snd fs) x = Inr True) \<and>
     (\<forall>fs\<in>set optional. \<forall>x. map_of d (fst fs) = Some x \<longrightarrow> check (snd fs) x = Inr True) \<and>
     (unk \<noteq> [] \<longrightarrow>
        (\<exists>s. rest_schema = Some s \<and>
           check s (PDict (filter (\<lambda>kv. fst kv \<in> set unk) d)) = Inr True))"
    unfolding rec_check_dict [OF dist] u f ..
  show ?thesis
    unfolding v using K unfolding unk_def by (simp del: check.simps)
qed


theorem rec_check_iff_witness:
  "make_schema (Suc (Suc 0)) (snd (Factory True))
     (PDict [(''type'', PStr ''//rec''), (''required'', PDict [(''a'', PStr ''//int'')]),
             (''optional'', PDict [(''b'', PStr ''//str'')])]) =
     Inr (RecType {''a'', ''b''} None [(''a'', IntType None None)] [(''b'', StrType None None)]) \<and>
   check (RecType {''a'', ''b''} None [(''a'', IntType None None)] [(''b'', StrType None None)])
     (PDict [(''a'', PInt 1)]) = Inr True \<and>
   check (RecType {''a'', ''b''} None [(''a'', IntType None None)] [(''b'', StrType None None)])
     (PDict [(''a'', PInt 1), (''c'', PInt 2)]) = Inr False \<and>
   make_schema (Suc (Suc 0)) (snd (Factory True))
     (PDict [(''type'', PStr ''//rec''), (''required'', PDict [(''a'', PStr ''//int'')]),
             (''optional'', PDict [(''b'', PStr ''//str'')]), (''rest'', PStr ''//any'')]) =
     Inr (RecType {''a'', ''b''} (Some (AnyType None)) [(''a'', IntType None None)]
            [(''b'', StrType None None)]) \<and>
   check (RecType {''a'', ''b''} (Some (AnyType None)) [(''a'', IntType None None)]
            [(''b'', StrType None None)])
     (PDict [(''a'', PInt 1), (''c'', PInt 2)]) = Inr True"
proof -
  have i: "make_schema (Suc 0) (snd (Factory True)) (PStr ''//int'') = Inr (IntType None None)"
    "make_schema (Suc 0) (snd (Factory True)) (PStr ''//str'') = Inr (StrType None None)"
    "make_schema (Suc 0) (snd (Factory True)) (PStr ''//any'') = Inr (AnyType None)"
    by (simp_all add: eval_defs IntType_init_def StrType_init_def AnyType_init_def)
  have s: "{''b'', ''a''} = {''a'', ''b''}" by (rule insert_commute)
  have c1: "make_schema (Suc (Suc 0)) (snd (Factory True))
     (PDict [(''type'', PStr ''//rec''), (''required'', PDict [(''a'', PStr ''//int'')]),
             (''optional'', PDict [(''b'', PStr ''//str'')])]) =
     Inr (RecType {''a'', ''b''} None [(''a'', IntType None None)] [(''b'', StrType None None)])"
    using i s
    by (subst make_schema.simps(2))
       (simp add: eval_defs RecType_init_def which_dict_def del: make_schema.simps)
  have c2: "make_schema (Suc (Suc 0)) (snd (Factory True))
     (PDict [(''type'', PStr ''//rec''), (''required'', PDict [(''a'', PStr ''//int'')]),
             (''optional'', PDict [(''b'', PStr ''//str'')]), (''rest'', PStr ''//any'')]) =
     Inr (RecType {''a'', ''b''} (Some (AnyType None)) [(''a'', IntType None None)]
            [(''b'', StrType None None)])"
    using i s
    by (subst make_schema.simps(2))
       (simp add: eval_defs RecType_init_def which_dict_def del: make_schema.simps)
  have k2: "check (RecType {''a'', ''b''} None [(''a'', IntType None None)]
       [(''b'', StrType None None)]) (PDict [(''a'', PInt 1), (''c'', PInt 2)]) = Inr False"
    by (simp add: unknown_keys_def)
  have k1: "check (RecType {''a'', ''b''} None [(''a'', IntType None None)]
       [(''b'', StrType None None)]) (PDict [(''a'', PInt 1)]) = Inr True"
    using rec_check_iff [OF c1, of "PDict [(''a'', PInt 1)]"]
    by (simp add: and_then_def del: check.simps(13))
  have k3: "check (RecType {''a'', ''b''} (Some (AnyType None)) [(''a'', IntType None None)]
            [(''b'', StrType None None)])
     (PDict [(''a'', PInt 1), (''c'', PInt 2)]) = Inr True"
    using rec_check_iff [OF c2, of "PDict [(''a'', PInt 1), (''c'', PInt 2)]"]
    by (simp add: and_then_def del: check.simps(13))
  show ?thesis
    using c1 c2 k1 k2 k3 by (simp del: make_schema.simps check.simps)
qed


end
